theory Spec2Isabelle
  imports Complex_Main
begin

section \<open>Temperature report: a model of generate_and_send_temp_graph.py\<close>

text \<open>
  The script copies a Nagios perfdata file aside, clears the original, reads the copy as
  a tab separated table, extracts a temperature from the last column with a regular
  expression, plots one line per configured host, mails the chart and the copy, and
  removes both files. The model below follows the script line by line. Exceptions are
  values of the type \<open>error\<close>; the file system, the standard output and the mail that
  left the machine are fields of an explicit \<open>world\<close>. Operations of pandas, matplotlib
  and smtplib whose code is not part of the script are fields of an \<open>env\<close> record, so that
  every theorem holds for whatever these libraries answer.
\<close>

subsection \<open>Exceptions\<close>

datatype error =
    FileNotFoundError string
  | SameFileError string
  | PermissionError string
  | ParserError string
  | ValueError string
  | AttributeError string
  | SMTPException string
  | OtherError string

text \<open>The text of an exception, as \<open>{e}\<close> prints it in an f-string.\<close>

fun str_of_error :: "error \<Rightarrow> string" where
  "str_of_error (FileNotFoundError m) = m"
| "str_of_error (SameFileError m) = m"
| "str_of_error (PermissionError m) = m"
| "str_of_error (ParserError m) = m"
| "str_of_error (ValueError m) = m"
| "str_of_error (AttributeError m) = m"
| "str_of_error (SMTPException m) = m"
| "str_of_error (OtherError m) = m"

text \<open>Sequencing of steps that may raise: the first exception ends the computation.\<close>

definition bindE :: "error + 'a \<Rightarrow> ('a \<Rightarrow> error + 'b) \<Rightarrow> error + 'b" where
  "bindE m f = (case m of Inl e \<Rightarrow> Inl e | Inr x \<Rightarrow> f x)"

subsection \<open>The table read by pandas\<close>

text \<open>
  A cell of the DataFrame that \<open>read_csv\<close> returns: a missing value, a string, or a
  number (a column whose every field parses as a number is numeric in pandas).
\<close>

datatype cell = NaN | Str string | Num rat

text \<open>One line of the input, under the ten column names of line 179.\<close>

record row =
  Timestamp :: cell
  Host :: cell
  Service :: cell
  Status :: cell
  Unknown :: cell
  State :: cell
  Metric1 :: cell
  Metric2 :: cell
  Details :: cell
  Temperature_Detail :: cell

text \<open>
  Lines 186 and 188 add two columns. A temperature is the decimal number that the
  captured text denotes (Python keeps the double nearest to it); \<open>None\<close> is NaN.
  A date is a number of seconds since the epoch; \<open>None\<close> is NaT.
\<close>

record reading = row +
  Temperature :: "rat option"
  Date :: "rat option"

subsection \<open>The regular expression of line 186\<close>

text \<open>
  \<open>Ambient_temperatureC=([\d.]+)\<close>: the literal text, then the longest run of digits
  and dots, which must not be empty. Characters are bytes here, so \<open>\d\<close> is \<open>0\<close> to
  \<open>9\<close>.
\<close>

definition pattern_literal :: string where
  "pattern_literal = ''Ambient_temperatureC=''"

definition is_digit :: "char \<Rightarrow> bool" where
  "is_digit c = (c \<in> set ''0123456789'')"

definition in_class :: "char \<Rightarrow> bool" where
  "in_class c = (is_digit c \<or> c = CHR ''.'')"

text \<open>The pattern tried at the start of a string; the result is the captured group.\<close>

definition match_here :: "string \<Rightarrow> string option" where
  "match_here s =
     (if take (length pattern_literal) s = pattern_literal
      then (let g = takeWhile in_class (drop (length pattern_literal) s)
            in if g = [] then None else Some g)
      else None)"

text \<open>\<open>re.search\<close>: the first position, from the left, where the pattern matches.\<close>

fun re_search :: "string \<Rightarrow> string option" where
  "re_search [] = None"
| "re_search (c # cs) =
     (case match_here (c # cs) of Some g \<Rightarrow> Some g | None \<Rightarrow> re_search cs)"

subsection \<open>Conversion to float\<close>

definition digit_val :: "char \<Rightarrow> nat" where
  "digit_val c = of_char c - 48"

definition dec :: "string \<Rightarrow> nat" where
  "dec ds = foldl (\<lambda>n c. 10 * n + digit_val c) 0 ds"

text \<open>
  Python's \<open>float\<close> on a text of digits and dots, the only texts the group can capture:
  digits, digits with one dot, or a dot followed by digits. Everything else raises
  ValueError (so do \<open>.\<close> and \<open>1.2.3\<close>).
\<close>

definition py_float :: "string \<Rightarrow> error + rat" where
  "py_float s =
     (let ip = takeWhile is_digit s; rest = dropWhile is_digit s
      in if rest = [] then
           (if ip = [] then Inl (ValueError s) else Inr (of_nat (dec ip)))
         else if hd rest = CHR ''.'' \<and> list_all is_digit (tl rest)
                 \<and> \<not> (ip = [] \<and> tl rest = []) then
           Inr (of_nat (dec ip) + of_nat (dec (tl rest)) / 10 ^ length (tl rest))
         else Inl (ValueError s))"

text \<open>
  \<open>.str\<close> on a column: pandas refuses the accessor (AttributeError) on a column that
  holds no string, unless the column is empty.
\<close>

definition is_str :: "cell \<Rightarrow> bool" where
  "is_str c = (case c of Str s \<Rightarrow> True | _ \<Rightarrow> False)"

definition str_accessor :: "cell list \<Rightarrow> error + cell list" where
  "str_accessor col =
     (if col \<noteq> [] \<and> \<not> list_ex is_str col
      then Inl (AttributeError ''Can only use .str accessor with string values!'')
      else Inr col)"

text \<open>\<open>.str.extract\<close> on one cell: the group of the first match; NaN when there is none.\<close>

definition str_extract :: "cell \<Rightarrow> string option" where
  "str_extract c = (case c of Str s \<Rightarrow> re_search s | _ \<Rightarrow> None)"

text \<open>\<open>.astype(float)\<close>: element by element, NaN stays NaN, the first bad text raises.\<close>

fun astype_float :: "string option list \<Rightarrow> error + rat option list" where
  "astype_float [] = Inr []"
| "astype_float (None # gs) = bindE (astype_float gs) (\<lambda>ts. Inr (None # ts))"
| "astype_float (Some g # gs) =
     bindE (py_float g) (\<lambda>t. bindE (astype_float gs) (\<lambda>ts. Inr (Some t # ts)))"

text \<open>Line 186 as a whole, on the column \<open>Temperature_Detail\<close>.\<close>

definition extract_temperature :: "cell list \<Rightarrow> error + rat option list" where
  "extract_temperature col =
     bindE (str_accessor col) (\<lambda>c. astype_float (map str_extract c))"

subsection \<open>The world and the libraries\<close>

text \<open>
  The message that \<open>send_email\<close> builds: the three headers, the plain text body and one
  part per attachment, a file name with the bytes of the file (the base64 transfer
  encoding is a bijection and is left out).
\<close>

record message =
  msg_From :: string
  msg_To :: string
  msg_Subject :: string
  msg_body :: string
  msg_parts :: "(string \<times> string) list"

text \<open>
  The world: the files on disk (a path has a content or none), the lines printed, and
  the messages that the mail relay accepted.
\<close>

record world =
  files :: "string \<rightharpoonup> string"
  stdout :: "string list"
  delivered :: "message list"

text \<open>
  A line drawn by \<open>plt.plot\<close>: its label, its colour and its points. An x value is a
  date with its time zone, a y value a temperature or NaN.
\<close>

record series =
  label :: string
  color :: string
  xdata :: "(rat option \<times> string) list"
  ydata :: "rat option list"

record figure =
  fig_title :: string
  fig_xlabel :: string
  fig_ylabel :: string
  fig_lines :: "series list"
  fig_legend :: bool
  fig_grid :: bool

text \<open>
  What the script asks of its libraries and of the operating system:
  \<^item> \<open>writable p\<close>: a file can be created or overwritten at \<open>p\<close>;
  \<^item> \<open>pd_read_csv\<close>: the table parsed from the content of a file, or the exception of
    the parser;
  \<^item> \<open>pd_to_datetime\<close>: a timestamp cell in seconds as a date, or an exception;
  \<^item> \<open>plt_savefig\<close>: the path matplotlib writes for a file name (it appends an extension
    when the name has none) and the bytes of the image, or the exception that drawing
    or saving the figure raises;
  \<^item> \<open>smtp_sendmail\<close>: the SMTP session with a server and a port; \<open>None\<close> when the
    message was accepted, the exception otherwise.
\<close>

record env =
  writable :: "string \<Rightarrow> bool"
  pd_read_csv :: "string \<Rightarrow> error + row list"
  pd_to_datetime :: "cell \<Rightarrow> error + rat option"
  plt_savefig :: "string \<Rightarrow> figure \<Rightarrow> error + string \<times> string"
  smtp_sendmail :: "string \<Rightarrow> int \<Rightarrow> message \<Rightarrow> error option"

text \<open>The options of the configuration file, as lines 158 to 169 read them.\<close>

record config =
  original_file :: string
  copied_file :: string
  graph_file :: string
  excel_file :: string
  smtp_server :: string
  smtp_port :: int
  from_email :: string
  to_email :: string
  hosts_list :: string
  colors_list :: string

subsection \<open>File operations\<close>

text \<open>
  \<open>shutil.copyfile\<close>: refuses a copy onto itself, then opens the source, then the
  destination. Paths are compared as texts.
\<close>

definition copyfile :: "env \<Rightarrow> string \<Rightarrow> string \<Rightarrow> world \<Rightarrow> error + world" where
  "copyfile env src dst w =
     (if src = dst then Inl (SameFileError src)
      else case files w src of
        None \<Rightarrow> Inl (FileNotFoundError src)
      | Some content \<Rightarrow>
          if writable env dst then Inr (w\<lparr>files := (files w)(dst \<mapsto> content)\<rparr>)
          else Inl (PermissionError dst))"

text \<open>\<open>open(path, 'w').close()\<close>: the file exists and is empty afterwards.\<close>

definition open_w_close :: "env \<Rightarrow> string \<Rightarrow> world \<Rightarrow> error + world" where
  "open_w_close env path w =
     (if writable env path then Inr (w\<lparr>files := (files w)(path \<mapsto> [])\<rparr>)
      else Inl (PermissionError path))"

definition os_remove :: "string \<Rightarrow> world \<Rightarrow> error + world" where
  "os_remove path w =
     (case files w path of
        None \<Rightarrow> Inl (FileNotFoundError path)
      | Some content \<Rightarrow> Inr (w\<lparr>files := (files w)(path := None)\<rparr>))"

text \<open>\<open>pd.read_csv(path, ...)\<close>: the file is opened, its content parsed.\<close>

definition read_csv :: "env \<Rightarrow> string \<Rightarrow> world \<Rightarrow> error + row list" where
  "read_csv env path w =
     (case files w path of
        None \<Rightarrow> Inl (FileNotFoundError path)
      | Some content \<Rightarrow> pd_read_csv env content)"

text \<open>\<open>pd.to_datetime(column, unit='s')\<close>.\<close>

fun to_datetime :: "env \<Rightarrow> cell list \<Rightarrow> error + rat option list" where
  "to_datetime env [] = Inr []"
| "to_datetime env (c # cs) =
     bindE (pd_to_datetime env c) (\<lambda>d. bindE (to_datetime env cs) (\<lambda>ds. Inr (d # ds)))"

text \<open>\<open>str.split(',')\<close> of lines 168 and 169: the result is never empty.\<close>

fun split_comma :: "string \<Rightarrow> string list" where
  "split_comma [] = [[]]"
| "split_comma (c # cs) =
     (if c = CHR '','' then [] # split_comma cs
      else (case split_comma cs of w # ws \<Rightarrow> (c # w) # ws | [] \<Rightarrow> [[c]]))"

text \<open>\<open>os.path.basename\<close>: what follows the last slash.\<close>

definition basename :: "string \<Rightarrow> string" where
  "basename path = rev (takeWhile (\<lambda>c. c \<noteq> CHR ''/'') (rev path))"

subsection \<open>generate_graph (lines 115 to 146)\<close>

text \<open>\<open>data[data['Host'] == host]\<close>: the rows of one host, in the order of the table.\<close>

definition host_rows :: "reading list \<Rightarrow> string \<Rightarrow> reading list" where
  "host_rows data host = filter (\<lambda>r. Host r = Str host) data"

text \<open>
  The line that \<open>plt.plot\<close> draws for one host (lines 136 and 137): the dates, made
  aware of the time zone UTC and shown in \<open>rome_tz\<close> (the instant does not change),
  against the column \<open>Temperature\<close>. Every row of the host is passed, NaN included.
\<close>

definition plot_series :: "reading list \<Rightarrow> string \<Rightarrow> string \<Rightarrow> string \<Rightarrow> series" where
  "plot_series host_data host c rome_tz =
     \<lparr>label = host, color = c,
      xdata = map (\<lambda>r. (Date r, rome_tz)) host_data,
      ydata = map Temperature host_data\<rparr>"

text \<open>The body of the loop of line 132, over the pairs that \<open>zip\<close> produced.\<close>

fun plot_loop :: "reading list \<Rightarrow> string \<Rightarrow> (string \<times> string) list \<Rightarrow> series list" where
  "plot_loop data rome_tz [] = []"
| "plot_loop data rome_tz ((host, c) # rest) =
     (let host_data = host_rows data host
      in (if host_data \<noteq> [] then [plot_series host_data host c rome_tz] else [])
         @ plot_loop data rome_tz rest)"

text \<open>\<open>for host, color in zip(hosts, colors)\<close>: the lines of the figure.\<close>

definition plot_lines ::
  "reading list \<Rightarrow> string list \<Rightarrow> string list \<Rightarrow> string \<Rightarrow> series list" where
  "plot_lines data hosts colors rome_tz = plot_loop data rome_tz (zip hosts colors)"

definition generate_graph ::
  "env \<Rightarrow> reading list \<Rightarrow> string list \<Rightarrow> string list \<Rightarrow> string \<Rightarrow> string
   \<Rightarrow> world \<Rightarrow> error + world" where
  "generate_graph env data hosts colors graph_path rome_tz w =
     (let fig = \<lparr>fig_title = ''CED Temperature'', fig_xlabel = ''Time'',
                 fig_ylabel = ''Temperature ('' @ [CHR 0xB0] @ ''C)'',
                 fig_lines = plot_lines data hosts colors rome_tz,
                 fig_legend = True, fig_grid = True\<rparr>
      in case plt_savefig env graph_path fig of
           Inl e \<Rightarrow> Inl e
         | Inr (p, img) \<Rightarrow> Inr (w\<lparr>files := (files w)(p \<mapsto> img)\<rparr>))"

subsection \<open>send_email (lines 74 to 112)\<close>

text \<open>
  The loop of lines 99 to 105: each file is opened and read; a path with no file
  raises, outside of any \<open>try\<close>.
\<close>

fun attach_files :: "string list \<Rightarrow> world \<Rightarrow> error + (string \<times> string) list" where
  "attach_files [] w = Inr []"
| "attach_files (file_path # rest) w =
     (case files w file_path of
        None \<Rightarrow> Inl (FileNotFoundError file_path)
      | Some payload \<Rightarrow>
          bindE (attach_files rest w) (\<lambda>parts. Inr ((basename file_path, payload) # parts)))"

text \<open>
  Lines 108 to 112: the SMTP session runs under \<open>try\<close>; \<open>except Exception\<close> prints the
  exception and the function returns.
\<close>

definition send_email ::
  "env \<Rightarrow> string \<Rightarrow> string \<Rightarrow> string list \<Rightarrow> string \<Rightarrow> string \<Rightarrow> string \<Rightarrow> int
   \<Rightarrow> world \<Rightarrow> error + world" where
  "send_email env subject body attachments sender recipient server port w =
     (case attach_files attachments w of
        Inl e \<Rightarrow> Inl e
      | Inr parts \<Rightarrow>
          (let msg = \<lparr>msg_From = sender, msg_To = recipient, msg_Subject = subject,
                      msg_body = body, msg_parts = parts\<rparr>
           in case smtp_sendmail env server port msg of
                None \<Rightarrow> Inr (w\<lparr>delivered := delivered w @ [msg]\<rparr>)
              | Some e \<Rightarrow>
                  Inr (w\<lparr>stdout := stdout w @ [''Failed to send email: '' @ str_of_error e]\<rparr>)))"

subsection \<open>main (lines 149 to 203)\<close>

text \<open>
  A run is a sequence of steps on the world. A step that raises ends the run: the
  result is the exception together with the world as the earlier steps left it.
  \<open>None\<close> is a run that reached the end of \<open>main\<close>.
\<close>

definition step ::
  "(world \<Rightarrow> error + world) \<Rightarrow> (world \<Rightarrow> error option \<times> world)
   \<Rightarrow> world \<Rightarrow> error option \<times> world" where
  "step act k w = (case act w of Inl e \<Rightarrow> (Some e, w) | Inr w' \<Rightarrow> k w')"

definition compute ::
  "error + 'a \<Rightarrow> ('a \<Rightarrow> world \<Rightarrow> error option \<times> world)
   \<Rightarrow> world \<Rightarrow> error option \<times> world" where
  "compute m k w = (case m of Inl e \<Rightarrow> (Some e, w) | Inr x \<Rightarrow> k x w)"

definition finish :: "world \<Rightarrow> error option \<times> world" where
  "finish w = (None, w)"

text \<open>The table with the columns \<open>Temperature\<close> and \<open>Date\<close> of lines 186 and 188.\<close>

definition add_columns ::
  "row list \<Rightarrow> rat option list \<Rightarrow> rat option list \<Rightarrow> reading list" where
  "add_columns data temps dates =
     map (\<lambda>(r, t, d). row.extend r (reading.fields t d)) (zip data (zip temps dates))"

definition email_subject :: string where
  "email_subject = ''CED Temperature Report''"

definition email_body :: string where
  "email_body =
     ''Hello Team,'' @ [CHR 0x0A, CHR 0x0A]
     @ ''Please find attached the temperature graph and data.'' @ [CHR 0x0A, CHR 0x0A]
     @ ''Best Regards,'' @ [CHR 0x0A] @ ''Monitoring Team''"

text \<open>
  The run from line 168 on, with the options of the configuration file already read:
  copy, clear the original, read the copy, extract, convert the timestamps, plot, mail,
  remove the two files.
\<close>

definition main :: "env \<Rightarrow> config \<Rightarrow> world \<Rightarrow> error option \<times> world" where
  "main env cfg =
     (let hosts = split_comma (hosts_list cfg);
          colors = split_comma (colors_list cfg)
      in step (copyfile env (original_file cfg) (copied_file cfg))
        (step (open_w_close env (original_file cfg))
        (\<lambda>w. compute (read_csv env (copied_file cfg) w) (\<lambda>data.
              compute (extract_temperature (map Temperature_Detail data)) (\<lambda>temps.
              compute (to_datetime env (map Timestamp data)) (\<lambda>dates.
              step (generate_graph env (add_columns data temps dates) hosts colors
                      (graph_file cfg) ''Europe/Rome'')
             (step (send_email env email_subject email_body
                      [graph_file cfg, copied_file cfg]
                      (from_email cfg) (to_email cfg) (smtp_server cfg) (smtp_port cfg))
             (step (os_remove (copied_file cfg))
             (step (os_remove (graph_file cfg)) finish)))))) w)))"

text \<open>
  The steps of \<open>main\<close> before the call of \<open>send_email\<close> (lines 168 to 192), named so that
  the world in which the mail is prepared can be spoken of.
\<close>

definition main_until_send :: "env \<Rightarrow> config \<Rightarrow> world \<Rightarrow> error option \<times> world" where
  "main_until_send env cfg =
     (let hosts = split_comma (hosts_list cfg);
          colors = split_comma (colors_list cfg)
      in step (copyfile env (original_file cfg) (copied_file cfg))
        (step (open_w_close env (original_file cfg))
        (\<lambda>w. compute (read_csv env (copied_file cfg) w) (\<lambda>data.
              compute (extract_temperature (map Temperature_Detail data)) (\<lambda>temps.
              compute (to_datetime env (map Timestamp data)) (\<lambda>dates.
              step (generate_graph env (add_columns data temps dates) hosts colors
                      (graph_file cfg) ''Europe/Rome'') finish))) w)))"

subsection \<open>Notions of the specification\<close>

text \<open>
  The readings of a host whose temperature is present: what the specification says a
  line is drawn from.
\<close>

definition present_rows :: "reading list \<Rightarrow> string \<Rightarrow> reading list" where
  "present_rows data host = filter (\<lambda>r. Temperature r \<noteq> None) (host_rows data host)"

text \<open>
  A number as the specification writes it: one or more digits, optionally followed by
  a dot and one or more digits; and the value it denotes.
\<close>

definition number_text :: "string \<Rightarrow> string option \<Rightarrow> string" where
  "number_text ip fp = (case fp of None \<Rightarrow> ip | Some f \<Rightarrow> ip @ ''.'' @ f)"

definition is_number_text :: "string \<Rightarrow> string option \<Rightarrow> bool" where
  "is_number_text ip fp =
     (ip \<noteq> [] \<and> list_all is_digit ip
      \<and> (case fp of None \<Rightarrow> True | Some f \<Rightarrow> f \<noteq> [] \<and> list_all is_digit f))"

definition number_value :: "string \<Rightarrow> string option \<Rightarrow> rat" where
  "number_value ip fp =
     (case fp of
        None \<Rightarrow> of_nat (dec ip)
      | Some f \<Rightarrow> of_nat (dec ip) + of_nat (dec f) / 10 ^ length f)"

subsection \<open>A concrete library for sample runs\<close>

text \<open>
  The theorems below hold for every \<open>env\<close>. To run the model on sample files, this
  section gives one: a reader for plain tab separated text that follows the rules of
  pandas which matter here; the sample files use no quoting, no sign, no exponent and no
  field that pandas reads as missing other than the empty one.
  \<^item> Empty lines are skipped; a line is cut at the tabs.
  \<^item> The first line fixes the width: its number of fields, at least ten. A later line
    with more fields raises ParserError; a shorter line is filled with missing values.
  \<^item> The last ten columns get the ten names.
  \<^item> A column whose fields are all numbers or empty is numeric; in any other column a
    field that is not empty is a string. An empty field is NaN.
\<close>

fun split_sep :: "char \<Rightarrow> string \<Rightarrow> string list" where
  "split_sep sep [] = [[]]"
| "split_sep sep (c # cs) =
     (if c = sep then [] # split_sep sep cs
      else (case split_sep sep cs of w # ws \<Rightarrow> (c # w) # ws | [] \<Rightarrow> [[c]]))"

definition is_number :: "string \<Rightarrow> bool" where
  "is_number f = (case py_float f of Inl e \<Rightarrow> False | Inr v \<Rightarrow> True)"

definition numeric_column :: "string list list \<Rightarrow> nat \<Rightarrow> bool" where
  "numeric_column table j = list_all (\<lambda>r. r ! j = [] \<or> is_number (r ! j)) table"

definition typed_cell :: "bool \<Rightarrow> string \<Rightarrow> cell" where
  "typed_cell numeric f =
     (if f = [] then NaN
      else if numeric then (case py_float f of Inl e \<Rightarrow> Str f | Inr v \<Rightarrow> Num v)
      else Str f)"

definition row_of :: "cell list \<Rightarrow> row" where
  "row_of cs =
     \<lparr>Timestamp = cs ! 0, Host = cs ! 1, Service = cs ! 2, Status = cs ! 3,
      Unknown = cs ! 4, State = cs ! 5, Metric1 = cs ! 6, Metric2 = cs ! 7,
      Details = cs ! 8, Temperature_Detail = cs ! 9\<rparr>"

definition sample_read_csv :: "string \<Rightarrow> error + row list" where
  "sample_read_csv content =
     (let table = map (split_sep (CHR 0x09))
                    (filter (\<lambda>l. l \<noteq> []) (split_sep (CHR 0x0A) content));
          width = (case table of [] \<Rightarrow> 10 | r # rs \<Rightarrow> max 10 (length r))
      in if list_ex (\<lambda>r. width < length r) table
         then Inl (ParserError ''Error tokenizing data. C error: too many fields'')
         else (let padded = map (\<lambda>r. drop (width - 10) (r @ replicate (width - length r) []))
                              table;
                   numeric = map (numeric_column padded) [0..<10]
               in Inr (map (\<lambda>r. row_of (map2 typed_cell numeric r)) padded)))"

text \<open>
  Timestamps in seconds: a number in the range of nanosecond dates is a date, a missing
  value is NaT, a string is refused.
\<close>

definition sample_to_datetime :: "cell \<Rightarrow> error + rat option" where
  "sample_to_datetime c =
     (case c of
        NaN \<Rightarrow> Inr None
      | Num n \<Rightarrow>
          if - 9223372036 \<le> n \<and> n \<le> 9223372036 then Inr (Some n)
          else Inl (OtherError ''OutOfBoundsDatetime'')
      | Str s \<Rightarrow> Inl (ValueError s))"

text \<open>
  \<open>savefig\<close>: the format is the extension of the file name; a name without extension
  gets \<open>.png\<close> appended; an extension that is no image format raises ValueError. The
  bytes written stand for the picture: they name the lines drawn.
\<close>

definition extension :: "string \<Rightarrow> string" where
  "extension path =
     (let name = dropWhile (\<lambda>c. c = CHR ''.'') (basename path)
      in if CHR ''.'' \<in> set name
         then rev (takeWhile (\<lambda>c. c \<noteq> CHR ''.'') (rev name)) else [])"

definition sample_savefig :: "string \<Rightarrow> figure \<Rightarrow> error + string \<times> string" where
  "sample_savefig path fig =
     (let img = ''image:'' @ concat (map (\<lambda>l. '' '' @ label l) (fig_lines fig))
      in if extension path = [] then Inr (path @ ''.png'', img)
         else if extension path \<in> set [''png'', ''pdf'', ''svg'', ''jpg'', ''jpeg'']
         then Inr (path, img)
         else Inl (ValueError (extension path)))"

definition sample_env :: env where
  "sample_env =
     \<lparr>writable = (\<lambda>p. True),
      pd_read_csv = sample_read_csv,
      pd_to_datetime = sample_to_datetime,
      plt_savefig = sample_savefig,
      smtp_sendmail = (\<lambda>server port msg. None)\<rparr>"

text \<open>The same library with a mail relay that refuses the connection.\<close>

definition offline_env :: env where
  "offline_env =
     sample_env\<lparr>smtp_sendmail := (\<lambda>server port msg. Some (OtherError ''Connection refused''))\<rparr>"

definition sample_cfg :: config where
  "sample_cfg =
     \<lparr>original_file = ''/n/perf'', copied_file = ''/t/copy'', graph_file = ''/t/g.png'',
      excel_file = ''/t/d.xlsx'', smtp_server = ''mail'', smtp_port = 25,
      from_email = ''a@x'', to_email = ''b@x'',
      hosts_list = ''srv1,srv2'', colors_list = ''blue,green''\<rparr>"

text \<open>A line of the input file: ten fields joined by tabs, ended by a newline.\<close>

definition tsv_line :: "string list \<Rightarrow> string" where
  "tsv_line cols =
     (case cols of [] \<Rightarrow> [] | f # fs \<Rightarrow> f @ concat (map (\<lambda>g. CHR 0x09 # g) fs))
     @ [CHR 0x0A]"

definition sample_line :: "string \<Rightarrow> string \<Rightarrow> string \<Rightarrow> string" where
  "sample_line ts host blob = tsv_line [ts, host, ''T'', ''OK'', ''1'', ''H'', ''0'', ''0'', ''ok'', blob]"

definition on_disk :: "string \<Rightarrow> world" where
  "on_disk content =
     \<lparr>files = [''/n/perf'' \<mapsto> content], stdout = [], delivered = []\<rparr>"

text \<open>A reading of host \<open>srv1\<close> whose detail text holds no temperature.\<close>

definition silent_reading :: reading where
  "silent_reading =
     \<lparr>Timestamp = Num 1700000000, Host = Str ''srv1'', Service = Str ''T'',
      Status = Str ''OK'', Unknown = Num 1, State = Str ''H'', Metric1 = Num 0,
      Metric2 = Num 0, Details = Str ''ok'', Temperature_Detail = Str ''fan=3'',
      Temperature = None, Date = Some 1700000000\<rparr>"

text \<open>Sample input files and a configuration whose chart name has no extension.\<close>

definition good_file :: string where
  "good_file = sample_line ''1700000000'' ''srv1'' ''Ambient_temperatureC=21.5;;''"

definition bare_cfg :: config where
  "bare_cfg = sample_cfg\<lparr>graph_file := ''/t/g''\<rparr>"

text \<open>A file whose second line has eleven fields: the parser of pandas refuses it.\<close>

definition wide_file :: string where
  "wide_file =
     good_file
     @ tsv_line [''a'', ''b'', ''c'', ''d'', ''e'', ''f'', ''g'', ''h'', ''i'', ''j'', ''k'']"

text \<open>A disk without the input file.\<close>

definition empty_disk :: world where
  "empty_disk = \<lparr>files = Map.empty, stdout = [], delivered = []\<rparr>"

text \<open>An input file whose temperature token has a value that is no number.\<close>

definition malformed_file :: string where
  "malformed_file = sample_line ''1700000000'' ''srv1'' ''Ambient_temperatureC=1.2.3''"

section \<open>Properties\<close>

subsection \<open>The renderer\<close>

lemma zip_by_index:
  "zip xs ys = map (\<lambda>i. (xs ! i, ys ! i)) [0..<min (length xs) (length ys)]"
  by (rule nth_equalityI) simp_all

lemma zip_take_min:
  "zip xs ys = zip (take (min (length xs) (length ys)) xs) (take (min (length xs) (length ys)) ys)"
  by (rule nth_equalityI) simp_all

lemma plot_loop_filter_map:
  "plot_loop data tz pairs =
     map (\<lambda>(h, c). plot_series (host_rows data h) h c tz)
         (filter (\<lambda>(h, c). host_rows data h \<noteq> []) pairs)"
  by (induction data tz pairs rule: plot_loop.induct) (simp_all add: Let_def)

text \<open>
  Claim C10. When the host list and the colour list differ in length, the loop of the
  renderer runs over exactly the first \<open>min (length hosts) (length colors)\<close> pairs, the
  i-th host with the i-th colour; what is left of the longer list is ignored, and the
  renderer does what it does on the two lists cut to that length, with no error of its
  own.
\<close>

theorem zip_truncates_to_shorter:
  "plot_lines data hosts colors rome_tz =
     plot_loop data rome_tz
       (map (\<lambda>i. (hosts ! i, colors ! i)) [0..<min (length hosts) (length colors)])
   \<and> generate_graph env data hosts colors graph_path rome_tz w =
     generate_graph env data (take (min (length hosts) (length colors)) hosts)
                        (take (min (length hosts) (length colors)) colors)
                        graph_path rome_tz w"
proof -
  have "plot_lines data hosts colors rome_tz =
        plot_lines data (take (min (length hosts) (length colors)) hosts)
                        (take (min (length hosts) (length colors)) colors) rome_tz"
    unfolding plot_lines_def using zip_take_min [of hosts colors] by simp
  then show ?thesis
    unfolding generate_graph_def plot_lines_def
    using zip_by_index [of hosts colors] by simp
qed

text \<open>
  Claim C4, as amended. The renderer draws one line for each pair of host and colour
  whose host has at least one row in the table, in the order of the host list, from
  all the rows of that host: a row with no temperature is passed to the plot as NaN,
  and a host all of whose rows lack a temperature still gets its line. A host with no
  row at all gets none.
\<close>

theorem series_per_host_with_rows:
  "plot_lines data hosts colors rome_tz =
     map (\<lambda>(h, c). plot_series (host_rows data h) h c rome_tz)
         (filter (\<lambda>(h, c). host_rows data h \<noteq> []) (zip hosts colors))"
  unfolding plot_lines_def by (rule plot_loop_filter_map)

text \<open>
  Claim C4 as stated fails: host \<open>srv1\<close> has no reading with a present temperature,
  yet a line is drawn for it, with NaN as its only y value.
\<close>

theorem series_drawn_without_temperature:
  "present_rows [silent_reading] ''srv1'' = []
   \<and> plot_lines [silent_reading] [''srv1''] [''blue''] ''Europe/Rome'' =
       [\<lparr>label = ''srv1'', color = ''blue'',
         xdata = [(Some 1700000000, ''Europe/Rome'')], ydata = [None]\<rparr>]"
  by (simp add: present_rows_def plot_lines_def host_rows_def plot_series_def
                silent_reading_def)

subsection \<open>Evaluation of sample runs\<close>

text \<open>The definitions that the simplifier unfolds to run the model on a sample.\<close>

lemmas run_defs =
  main_def main_until_send_def step_def compute_def finish_def Let_def
  copyfile_def open_w_close_def os_remove_def read_csv_def generate_graph_def
  send_email_def extract_temperature_def str_accessor_def str_extract_def
  match_here_def pattern_literal_def in_class_def is_digit_def py_float_def dec_def
  digit_val_def bindE_def is_str_def add_columns_def plot_lines_def host_rows_def
  plot_series_def basename_def
  sample_env_def offline_env_def sample_cfg_def sample_read_csv_def sample_to_datetime_def
  sample_savefig_def extension_def is_number_def numeric_column_def typed_cell_def
  row_of_def tsv_line_def sample_line_def on_disk_def upt_rec

lemma run_good_offline:
  "fst (main offline_env sample_cfg (on_disk good_file)) = None"
  by (simp add: run_defs good_file_def)

lemma run_good_offline_files:
  "map (files (snd (main offline_env sample_cfg (on_disk good_file))))
     [''/n/perf'', ''/t/copy'', ''/t/g.png'', ''/t/d.xlsx''] = [Some [], None, None, None]"
  by (simp add: run_defs good_file_def)

lemma run_wide:
  "fst (main sample_env sample_cfg (on_disk wide_file)) =
     Some (ParserError ''Error tokenizing data. C error: too many fields'')"
  by (simp add: run_defs wide_file_def good_file_def)

lemma run_wide_files:
  "map (files (snd (main sample_env sample_cfg (on_disk wide_file))))
     [''/n/perf'', ''/t/copy'', ''/t/g.png'', ''/t/d.xlsx''] = [Some [], Some wide_file, None, None]"
  by (simp add: run_defs wide_file_def good_file_def)

lemma copy_wide:
  "copyfile sample_env (original_file sample_cfg) (copied_file sample_cfg) (on_disk wide_file) =
     Inr ((on_disk wide_file)\<lparr>files := (files (on_disk wide_file))(''/t/copy'' \<mapsto> wide_file)\<rparr>)"
  by (simp add: copyfile_def sample_env_def sample_cfg_def on_disk_def)

lemma rd_wide:
  "sample_read_csv wide_file = Inl (ParserError ''Error tokenizing data. C error: too many fields'')"
  by (simp add: run_defs wide_file_def good_file_def)

lemma run_good:
  "fst (main sample_env sample_cfg (on_disk good_file)) = None"
  by (simp add: run_defs good_file_def)

lemma run_good_files:
  "map (files (snd (main sample_env sample_cfg (on_disk good_file))))
     [''/n/perf'', ''/t/copy'', ''/t/g.png'', ''/t/d.xlsx''] = [Some [], None, None, None]"
  by (simp add: run_defs good_file_def)

subsection \<open>The run before and after the mail\<close>

lemma main_split:
  "main env cfg w =
     (case main_until_send env cfg w of
        (Some e, w') \<Rightarrow> (Some e, w')
      | (None, w') \<Rightarrow>
          step (send_email env email_subject email_body [graph_file cfg, copied_file cfg]
                  (from_email cfg) (to_email cfg) (smtp_server cfg) (smtp_port cfg))
         (step (os_remove (copied_file cfg))
         (step (os_remove (graph_file cfg)) finish)) w')"
  by (simp add: main_def main_until_send_def step_def compute_def finish_def Let_def
           split: sum.splits)

lemma copyfile_smtp:
  "copyfile (env\<lparr>smtp_sendmail := s\<rparr>) = copyfile env"
  by (simp add: fun_eq_iff copyfile_def split: option.splits)

lemma open_w_close_smtp:
  "open_w_close (env\<lparr>smtp_sendmail := s\<rparr>) = open_w_close env"
  by (simp add: fun_eq_iff open_w_close_def)

lemma read_csv_smtp:
  "read_csv (env\<lparr>smtp_sendmail := s\<rparr>) = read_csv env"
  by (simp add: fun_eq_iff read_csv_def split: option.splits)

lemma generate_graph_smtp:
  "generate_graph (env\<lparr>smtp_sendmail := s\<rparr>) = generate_graph env"
  by (simp add: fun_eq_iff generate_graph_def split: sum.splits)

lemma to_datetime_smtp:
  "to_datetime (env\<lparr>smtp_sendmail := s\<rparr>) cs = to_datetime env cs"
  by (induction cs) simp_all

lemma main_until_send_smtp:
  "main_until_send (env\<lparr>smtp_sendmail := s\<rparr>) cfg = main_until_send env cfg"
  by (simp add: main_until_send_def copyfile_smtp open_w_close_smtp read_csv_smtp
                generate_graph_smtp to_datetime_smtp)

lemma send_email_raises:
  "attach_files atts w = Inl e \<Longrightarrow>
   send_email env subject body atts sender recipient server port w = Inl e"
  by (simp add: send_email_def)

lemma send_email_returns:
  "attach_files atts w = Inr parts \<Longrightarrow>
   \<exists>w'. send_email env subject body atts sender recipient server port w = Inr w'
        \<and> files w' = files w"
  by (simp add: send_email_def Let_def split: option.splits)

lemma cleanup_files_only:
  "files w1 = files w2 \<Longrightarrow>
   fst (step (os_remove a) (step (os_remove b) finish) w1)
     = fst (step (os_remove a) (step (os_remove b) finish) w2)
   \<and> files (snd (step (os_remove a) (step (os_remove b) finish) w1))
     = files (snd (step (os_remove a) (step (os_remove b) finish) w2))"
  by (simp add: step_def finish_def os_remove_def split: option.splits)

lemma main_smtp_independent:
  "fst (main env cfg w) = fst (main (env\<lparr>smtp_sendmail := s\<rparr>) cfg w)
   \<and> files (snd (main env cfg w)) = files (snd (main (env\<lparr>smtp_sendmail := s\<rparr>) cfg w))"
proof (cases "main_until_send env cfg w")
  case (Pair r w')
  show ?thesis
  proof (cases r)
    case (Some e)
    with Pair show ?thesis by (simp add: main_split main_until_send_smtp)
  next
    case None
    let ?send = "\<lambda>v. send_email v email_subject email_body [graph_file cfg, copied_file cfg]
                  (from_email cfg) (to_email cfg) (smtp_server cfg) (smtp_port cfg) w'"
    show ?thesis
    proof (cases "attach_files [graph_file cfg, copied_file cfg] w'")
      case (Inl e)
      then have "?send env = Inl e" "?send (env\<lparr>smtp_sendmail := s\<rparr>) = Inl e"
        by (rule send_email_raises)+
      with Pair None show ?thesis
        by (simp add: main_split main_until_send_smtp step_def)
    next
      case (Inr parts)
      from send_email_returns [OF Inr] obtain w1 where
        w1: "?send env = Inr w1" "files w1 = files w'" by blast
      from send_email_returns [OF Inr] obtain w2 where
        w2: "?send (env\<lparr>smtp_sendmail := s\<rparr>) = Inr w2" "files w2 = files w'" by blast
      from w1 w2 have "files w1 = files w2" by simp
      from cleanup_files_only [OF this] w1 w2 Pair None show ?thesis
        by (simp add: main_split main_until_send_smtp step_def)
    qed
  qed
qed


lemma attach_files_missing:
  "p \<in> set attachments \<Longrightarrow> files w p = None \<Longrightarrow>
   \<exists>q. q \<in> set attachments \<and> files w q = None
       \<and> attach_files attachments w = Inl (FileNotFoundError q)"
proof (induction attachments)
  case Nil
  then show ?case by simp
next
  case (Cons a rest)
  show ?case
  proof (cases "files w a")
    case None
    then show ?thesis by auto
  next
    case (Some payload)
    with Cons.prems have "p \<in> set rest" by auto
    from Cons.IH [OF this Cons.prems(2)] obtain q where
      "q \<in> set rest" "files w q = None" "attach_files rest w = Inl (FileNotFoundError q)"
      by blast
    with Some show ?thesis by (auto simp: bindE_def)
  qed
qed

lemma until_send_keeps_copy:
  "main_until_send env cfg w0 = (None, w) \<Longrightarrow> files w (copied_file cfg) \<noteq> None"
  by (auto simp: main_until_send_def step_def compute_def finish_def Let_def
                 copyfile_def open_w_close_def generate_graph_def
           split: sum.splits option.splits if_splits prod.splits)

lemma send_email_files:
  "send_email env subject body atts sender recipient server port w = Inr w'
   \<Longrightarrow> files w' = files w"
  by (auto simp: send_email_def Let_def split: sum.splits option.splits)

lemma main_completed:
  assumes "fst (main env cfg w) = None"
  shows "\<exists>w1 w2 w3 w4 w5.
           copyfile env (original_file cfg) (copied_file cfg) w = Inr w1
         \<and> open_w_close env (original_file cfg) w1 = Inr w2
         \<and> main_until_send env cfg w = (None, w3)
         \<and> files w4 = files w3
         \<and> os_remove (copied_file cfg) w4 = Inr w5
         \<and> os_remove (graph_file cfg) w5 = Inr (snd (main env cfg w))"
  using assms
  by (fastforce simp: main_def main_until_send_def step_def compute_def finish_def Let_def
           dest: send_email_files
           split: sum.splits)

lemma os_remove_files:
  "os_remove p w = Inr w' \<Longrightarrow> files w p \<noteq> None \<and> files w' = (files w)(p := None)"
  by (auto simp: os_remove_def split: option.splits)


lemma copyfile_files:
  "copyfile env src dst w = Inr w1 \<Longrightarrow>
   src \<noteq> dst \<and> files w src \<noteq> None \<and> files w1 = (files w)(dst := files w src)"
  by (auto simp: copyfile_def split: option.splits if_splits)

lemma open_w_close_files:
  "open_w_close env p w = Inr w' \<Longrightarrow> files w' = (files w)(p \<mapsto> [])"
  by (auto simp: open_w_close_def split: if_splits)

lemma generate_graph_files:
  "generate_graph env data hosts colors p tz w = Inr w' \<Longrightarrow>
   \<exists>fig q img. plt_savefig env p fig = Inr (q, img) \<and> files w' = (files w)(q \<mapsto> img)"
  by (fastforce simp: generate_graph_def Let_def split: sum.splits)

lemma until_send_copy_present:
  assumes "copyfile env (original_file cfg) (copied_file cfg) w = Inr w1"
  shows "files (snd (main_until_send env cfg w)) (copied_file cfg) \<noteq> None"
proof -
  from copyfile_files [OF assms] have
    ne: "original_file cfg \<noteq> copied_file cfg" and
    c1: "files w1 (copied_file cfg) \<noteq> None" by auto
  show ?thesis
  proof (cases "open_w_close env (original_file cfg) w1")
    case (Inl e)
    with assms c1 show ?thesis
      by (simp add: main_until_send_def step_def Let_def)
  next
    case (Inr w2)
    from open_w_close_files [OF Inr] ne c1 have
      c2: "files w2 (copied_file cfg) \<noteq> None" by simp
    have "files w3 (copied_file cfg) \<noteq> None"
      if "generate_graph env data hosts colors p tz w2 = Inr w3" for data hosts colors p tz w3
      using generate_graph_files [OF that] c2 by auto
    with assms Inr c2 show ?thesis
      by (auto simp: main_until_send_def step_def compute_def finish_def Let_def
               split: sum.splits)
  qed
qed

lemma failed_run_keeps_copy:
  assumes "fst (main env cfg w) = Some e"
    and "copyfile env (original_file cfg) (copied_file cfg) w = Inr w1"
    and "graph_file cfg \<noteq> copied_file cfg"
  shows "files (snd (main env cfg w)) (copied_file cfg) \<noteq> None"
proof (cases "main_until_send env cfg w")
  case (Pair r w3)
  from until_send_copy_present [OF assms(2)] Pair have
    c3: "files w3 (copied_file cfg) \<noteq> None" by simp
  show ?thesis
  proof (cases r)
    case (Some e')
    with Pair c3 show ?thesis by (simp add: main_split)
  next
    case None
    let ?atts = "[graph_file cfg, copied_file cfg]"
    show ?thesis
    proof (cases "attach_files ?atts w3")
      case (Inl e')
      from send_email_raises [OF this] Pair None c3 show ?thesis
        by (simp add: main_split step_def)
    next
      case (Inr parts)
      then have g3: "files w3 (graph_file cfg) \<noteq> None"
        by (auto split: option.splits)
      from send_email_returns [OF Inr] obtain w4 where
        w4: "send_email env email_subject email_body ?atts (from_email cfg) (to_email cfg)
               (smtp_server cfg) (smtp_port cfg) w3 = Inr w4" "files w4 = files w3"
        by blast
      from c3 g3 w4(2) assms(3) have
        "fst (step (os_remove (copied_file cfg))
               (step (os_remove (graph_file cfg)) finish) w4) = None"
        by (auto simp: step_def finish_def os_remove_def split: option.splits)
      with Pair None w4(1) assms(1) show ?thesis
        by (simp add: main_split step_def)
    qed
  qed
qed

lemma completed_run_removed:
  assumes "fst (main env cfg w) = None"
  shows "files (snd (main env cfg w)) (copied_file cfg) = None"
proof -
  from main_completed [OF assms] obtain w4 w5 where
    "os_remove (copied_file cfg) w4 = Inr w5"
    "os_remove (graph_file cfg) w5 = Inr (snd (main env cfg w))" by blast
  then have "files (snd (main env cfg w)) =
             (files w4)(copied_file cfg := None, graph_file cfg := None)"
    by (auto dest!: os_remove_files)
  then show ?thesis by simp
qed

lemma until_send_elsewhere:
  assumes "x \<noteq> original_file cfg" and "x \<noteq> copied_file cfg"
    and sv: "\<forall>fig q img. plt_savefig env (graph_file cfg) fig = Inr (q, img) \<longrightarrow> q \<noteq> x"
  shows "files (snd (main_until_send env cfg w)) x = files w x"
proof (cases "copyfile env (original_file cfg) (copied_file cfg) w")
  case (Inl e)
  then show ?thesis by (simp add: main_until_send_def step_def Let_def)
next
  case (Inr w1)
  from copyfile_files [OF Inr] assms(2) have f1: "files w1 x = files w x" by simp
  show ?thesis
  proof (cases "open_w_close env (original_file cfg) w1")
    case (Inl e)
    with Inr f1 show ?thesis by (simp add: main_until_send_def step_def Let_def)
  next
    case o: (Inr w2)
    from open_w_close_files [OF o] assms(1) f1 have f2: "files w2 x = files w x" by simp
    have "files w3 x = files w x"
      if "generate_graph env data hosts colors (graph_file cfg) tz w2 = Inr w3"
      for data hosts colors tz w3
    proof -
      from generate_graph_files [OF that] obtain fig q img where
        g: "plt_savefig env (graph_file cfg) fig = Inr (q, img)"
           "files w3 = (files w2)(q \<mapsto> img)" by blast
      from sv g(1) have "q \<noteq> x" by blast
      with g(2) f2 show ?thesis by simp
    qed
    with Inr o f2 show ?thesis
      by (auto simp: main_until_send_def step_def compute_def finish_def Let_def
               split: sum.splits)
  qed
qed

lemma cleanup_elsewhere:
  "x \<noteq> a \<Longrightarrow> x \<noteq> b \<Longrightarrow>
   files (snd (step (os_remove a) (step (os_remove b) finish) w)) x = files w x"
  by (simp add: step_def finish_def os_remove_def split: option.splits)

lemma main_elsewhere:
  assumes "x \<noteq> original_file cfg" and "x \<noteq> copied_file cfg" and "x \<noteq> graph_file cfg"
    and sv: "\<forall>fig q img. plt_savefig env (graph_file cfg) fig = Inr (q, img) \<longrightarrow> q \<noteq> x"
  shows "files (snd (main env cfg w)) x = files w x"
proof (cases "main_until_send env cfg w")
  case (Pair r w3)
  from until_send_elsewhere [OF assms(1,2) sv, of w] Pair have
    f3: "files w3 x = files w x" by simp
  show ?thesis
  proof (cases r)
    case (Some e)
    with Pair f3 show ?thesis by (simp add: main_split)
  next
    case None
    show ?thesis
    proof (cases "attach_files [graph_file cfg, copied_file cfg] w3")
      case (Inl e)
      from send_email_raises [OF this] Pair None f3 show ?thesis
        by (simp add: main_split step_def)
    next
      case (Inr parts)
      from send_email_returns [OF Inr] obtain w4 where
        w4: "send_email env email_subject email_body [graph_file cfg, copied_file cfg]
               (from_email cfg) (to_email cfg) (smtp_server cfg) (smtp_port cfg) w3 = Inr w4"
            "files w4 = files w3"
        by blast
      from cleanup_elsewhere [OF assms(2,3), of w4] w4 Pair None f3 show ?thesis
        by (simp add: main_split step_def)
    qed
  qed
qed

subsection \<open>The notifier\<close>

text \<open>
  Claim C8. When the attachments were read and the SMTP session raises an exception,
  \<open>send_email\<close> prints \<open>Failed to send email:\<close> with the text of the exception and
  returns normally; the exception is not raised to the caller. The failure does not
  reach the outcome of the run: \<open>main\<close> ends with the same status as with a mail relay
  that accepts every message.
\<close>

theorem smtp_failure_logged_not_raised:
  assumes "attach_files attachments w = Inr parts"
    and "smtp_sendmail env server port
           \<lparr>msg_From = sender, msg_To = recipient, msg_Subject = subject,
            msg_body = body, msg_parts = parts\<rparr> = Some e"
  shows "send_email env subject body attachments sender recipient server port w =
           Inr (w\<lparr>stdout := stdout w @ [''Failed to send email: '' @ str_of_error e]\<rparr>)
         \<and> fst (main env cfg w0) =
             fst (main (env\<lparr>smtp_sendmail := (\<lambda>srv prt msg. None)\<rparr>) cfg w0)"
  using assms main_smtp_independent [of env cfg w0]
  by (simp add: send_email_def)

theorem smtp_failure_logged_not_raised_witness:
  "attach_files [''/n/perf''] (on_disk ''abc'') = Inr [(''perf'', ''abc'')]
   \<and> smtp_sendmail offline_env ''mail'' 25
        \<lparr>msg_From = ''a@x'', msg_To = ''b@x'', msg_Subject = ''s'', msg_body = ''b'',
         msg_parts = [(''perf'', ''abc'')]\<rparr> = Some (OtherError ''Connection refused'')
   \<and> send_email offline_env ''s'' ''b'' [''/n/perf''] ''a@x'' ''b@x'' ''mail'' 25 (on_disk ''abc'') =
       Inr ((on_disk ''abc'')\<lparr>stdout := [''Failed to send email: Connection refused'']\<rparr>)
   \<and> fst (main offline_env sample_cfg (on_disk good_file)) = None"
proof -
  have a: "attach_files [''/n/perf''] (on_disk ''abc'') = Inr [(''perf'', ''abc'')]"
    by (simp add: on_disk_def bindE_def basename_def)
  have b: "smtp_sendmail offline_env ''mail'' 25
        \<lparr>msg_From = ''a@x'', msg_To = ''b@x'', msg_Subject = ''s'', msg_body = ''b'',
         msg_parts = [(''perf'', ''abc'')]\<rparr> = Some (OtherError ''Connection refused'')"
    by (simp add: offline_env_def sample_env_def)
  have ev: "fst (main (offline_env\<lparr>smtp_sendmail := (\<lambda>srv prt msg. None)\<rparr>) sample_cfg
                  (on_disk good_file)) = None"
    by (simp add: run_defs good_file_def)
  have out: "stdout (on_disk ''abc'') = []" by (simp add: on_disk_def)
  from smtp_failure_logged_not_raised [OF a b, of sample_cfg "on_disk good_file"] a b ev out
  show ?thesis by simp
qed

text \<open>
  Claim C9. The \<open>try\<close> of \<open>send_email\<close> covers the SMTP session only. When one of the
  listed attachment files does not exist, \<open>send_email\<close> raises FileNotFoundError for
  such a file, whatever the mail relay would have answered. In \<open>main\<close>, where the
  attachments are the chart and the copy, the run then ends with that exception in the
  world as it was before the call: the two \<open>os.remove\<close> calls do not run and the copy
  stays on disk.
\<close>

theorem attachment_error_propagates:
  assumes "p \<in> set attachments" and "files w p = None"
  shows "\<exists>q. q \<in> set attachments \<and> files w q = None
           \<and> send_email env subject body attachments sender recipient server port w =
               Inl (FileNotFoundError q)
           \<and> (main_until_send env cfg w0 = (None, w)
                \<and> attachments = [graph_file cfg, copied_file cfg]
              \<longrightarrow> main env cfg w0 = (Some (FileNotFoundError q), w)
                  \<and> files w (copied_file cfg) \<noteq> None)"
proof -
  from attach_files_missing [OF assms] obtain q where
    q: "q \<in> set attachments" "files w q = None"
       "attach_files attachments w = Inl (FileNotFoundError q)" by blast
  have "send_email env subject body attachments sender recipient server port w =
          Inl (FileNotFoundError q)"
    using q(3) by (rule send_email_raises)
  moreover have "main env cfg w0 = (Some (FileNotFoundError q), w)"
    if "main_until_send env cfg w0 = (None, w)"
       "attachments = [graph_file cfg, copied_file cfg]"
    using that q(3) by (simp add: main_split step_def send_email_raises)
  moreover have "files w (copied_file cfg) \<noteq> None"
    if "main_until_send env cfg w0 = (None, w)"
    using that by (rule until_send_keeps_copy)
  ultimately show ?thesis using q(1,2) by blast
qed

theorem attachment_error_propagates_witness:
  "fst (main_until_send sample_env bare_cfg (on_disk good_file)) = None
   \<and> files (snd (main_until_send sample_env bare_cfg (on_disk good_file))) ''/t/g'' = None
   \<and> send_email sample_env email_subject email_body [''/t/g'', ''/t/copy''] ''a@x'' ''b@x'' ''mail'' 25
        (snd (main_until_send sample_env bare_cfg (on_disk good_file))) =
       Inl (FileNotFoundError ''/t/g'')
   \<and> main sample_env bare_cfg (on_disk good_file) =
       (Some (FileNotFoundError ''/t/g''),
        snd (main_until_send sample_env bare_cfg (on_disk good_file)))
   \<and> files (snd (main sample_env bare_cfg (on_disk good_file))) ''/t/copy'' \<noteq> None"
proof -
  let ?w = "snd (main_until_send sample_env bare_cfg (on_disk good_file))"
  have r: "fst (main_until_send sample_env bare_cfg (on_disk good_file)) = None"
    by (simp add: run_defs good_file_def bare_cfg_def)
  have g: "files ?w ''/t/g'' = None"
    by (simp add: run_defs good_file_def bare_cfg_def)
  have u: "main_until_send sample_env bare_cfg (on_disk good_file) = (None, ?w)"
    using r by (simp add: prod_eq_iff)
  have a: "[''/t/g'', ''/t/copy''] = [graph_file bare_cfg, copied_file bare_cfg]"
    by (simp add: bare_cfg_def sample_cfg_def)
  have m: "''/t/g'' \<in> set [''/t/g'', ''/t/copy'']" by simp
  from attachment_error_propagates [OF m g, of sample_env email_subject email_body
      "''a@x''" "''b@x''" "''mail''" 25 bare_cfg "on_disk good_file"] u a
  obtain q where q: "q \<in> set [''/t/g'', ''/t/copy'']" "files ?w q = None"
     "send_email sample_env email_subject email_body [''/t/g'', ''/t/copy''] ''a@x'' ''b@x'' ''mail'' 25 ?w
        = Inl (FileNotFoundError q)"
     "main sample_env bare_cfg (on_disk good_file) = (Some (FileNotFoundError q), ?w)"
     "files ?w (copied_file bare_cfg) \<noteq> None"
    by blast
  have cp: "copied_file bare_cfg = ''/t/copy''" by (simp add: bare_cfg_def sample_cfg_def)
  from q(1,2,5) cp have "q = ''/t/g''" by auto
  with q r g cp show ?thesis by simp
qed

subsection \<open>Files left by a run\<close>

text \<open>
  Claim C3, as amended. After a run that reaches the end of \<open>main\<close>, whether the mail
  relay accepted the message or the SMTP session failed, the copy and the chart are
  no longer on disk under their configured names. Nothing removes them on the other
  exit paths: a run that is ended by an exception after the copy was made leaves the
  copy on disk (chart and copy being two different paths).
\<close>

theorem cleanup_after_completed_run:
  "(fst (main env cfg w) = None \<longrightarrow>
      files (snd (main env cfg w)) (copied_file cfg) = None
    \<and> files (snd (main env cfg w)) (graph_file cfg) = None)
   \<and> (fst (main env cfg w) = Some e
      \<and> copyfile env (original_file cfg) (copied_file cfg) w = Inr w1
      \<and> graph_file cfg \<noteq> copied_file cfg \<longrightarrow>
      files (snd (main env cfg w)) (copied_file cfg) \<noteq> None)"
proof (intro conjI impI)
  assume "fst (main env cfg w) = None"
  from main_completed [OF this] obtain w4 w5 where
    "os_remove (copied_file cfg) w4 = Inr w5"
    "os_remove (graph_file cfg) w5 = Inr (snd (main env cfg w))" by blast
  then have "files (snd (main env cfg w)) =
             (files w4)(copied_file cfg := None, graph_file cfg := None)"
    by (auto dest!: os_remove_files)
  then show "files (snd (main env cfg w)) (copied_file cfg) = None"
    and "files (snd (main env cfg w)) (graph_file cfg) = None" by simp_all
next
  assume "fst (main env cfg w) = Some e
      \<and> copyfile env (original_file cfg) (copied_file cfg) w = Inr w1
      \<and> graph_file cfg \<noteq> copied_file cfg"
  then show "files (snd (main env cfg w)) (copied_file cfg) \<noteq> None"
    using failed_run_keeps_copy by blast
qed

theorem cleanup_after_completed_run_witness:
  "fst (main offline_env sample_cfg (on_disk good_file)) = None
   \<and> files (snd (main offline_env sample_cfg (on_disk good_file))) ''/t/copy'' = None
   \<and> files (snd (main offline_env sample_cfg (on_disk good_file))) ''/t/g.png'' = None
   \<and> fst (main sample_env sample_cfg (on_disk wide_file)) =
       Some (ParserError ''Error tokenizing data. C error: too many fields'')
   \<and> files (snd (main sample_env sample_cfg (on_disk wide_file))) ''/t/copy'' \<noteq> None"
proof -
  have p: "copied_file sample_cfg = ''/t/copy''" "graph_file sample_cfg = ''/t/g.png''"
    by (simp_all add: sample_cfg_def)
  have ne: "graph_file sample_cfg \<noteq> copied_file sample_cfg" by (simp add: sample_cfg_def)
  from cleanup_after_completed_run [of offline_env sample_cfg "on_disk good_file"]
    run_good_offline p
  have a: "files (snd (main offline_env sample_cfg (on_disk good_file))) ''/t/copy'' = None"
          "files (snd (main offline_env sample_cfg (on_disk good_file))) ''/t/g.png'' = None"
    by simp_all
  from cleanup_after_completed_run [of sample_env sample_cfg "on_disk wide_file"
      "ParserError ''Error tokenizing data. C error: too many fields''"
      "(on_disk wide_file)\<lparr>files := (files (on_disk wide_file))(''/t/copy'' \<mapsto> wide_file)\<rparr>"]
    run_wide copy_wide ne
  have "files (snd (main sample_env sample_cfg (on_disk wide_file))) (copied_file sample_cfg) \<noteq> None"
    by (simp only: simp_thms)
  with p have b: "files (snd (main sample_env sample_cfg (on_disk wide_file))) ''/t/copy'' \<noteq> None"
    by simp
  from a b run_good_offline run_wide show ?thesis by simp
qed

text \<open>
  Claim C3 as stated fails: the parser refuses the file, the run ends there, and the
  copy that this run created is still on disk.
\<close>

theorem artifact_left_after_failed_run:
  "files (on_disk wide_file) ''/t/copy'' = None
   \<and> fst (main sample_env sample_cfg (on_disk wide_file)) =
       Some (ParserError ''Error tokenizing data. C error: too many fields'')
   \<and> files (snd (main sample_env sample_cfg (on_disk wide_file))) ''/t/copy'' = Some wide_file"
  using run_wide run_wide_files by (simp add: on_disk_def)

subsection \<open>Copy, then truncate, then parse\<close>

text \<open>
  Claim C5, as amended. When the copy fails (the source file cannot be read, or the
  copy cannot be written) the run ends with that exception and nothing on disk has
  changed: the original is cleared only after \<open>copyfile\<close> returned. The content is
  parsed after the original was cleared: when the parser refuses the copy, the run
  ends with the exception of the parser, the original is already empty, and what it
  held before the run is in the copy.
\<close>

theorem truncation_follows_copy:
  "(copyfile env (original_file cfg) (copied_file cfg) w = Inl e \<longrightarrow>
      main env cfg w = (Some e, w))
   \<and> (copyfile env (original_file cfg) (copied_file cfg) w = Inr w1
      \<and> open_w_close env (original_file cfg) w1 = Inr w2
      \<and> read_csv env (copied_file cfg) w2 = Inl e' \<longrightarrow>
      main env cfg w = (Some e', w2)
      \<and> files w2 (original_file cfg) = Some []
      \<and> files w2 (copied_file cfg) = files w (original_file cfg))"
proof (intro conjI impI)
  assume "copyfile env (original_file cfg) (copied_file cfg) w = Inl e"
  then show "main env cfg w = (Some e, w)"
    by (simp add: main_def step_def Let_def)
next
  assume a: "copyfile env (original_file cfg) (copied_file cfg) w = Inr w1
      \<and> open_w_close env (original_file cfg) w1 = Inr w2
      \<and> read_csv env (copied_file cfg) w2 = Inl e'"
  then show "main env cfg w = (Some e', w2)"
    by (simp add: main_def step_def compute_def Let_def)
  from a have c: "original_file cfg \<noteq> copied_file cfg"
      "files w1 = (files w)(copied_file cfg := files w (original_file cfg))"
    using copyfile_files by blast+
  from a have o: "files w2 = (files w1)(original_file cfg \<mapsto> [])"
    using open_w_close_files by blast
  from c o show "files w2 (original_file cfg) = Some []" by simp
  from c o show "files w2 (copied_file cfg) = files w (original_file cfg)" by simp
qed

theorem truncation_follows_copy_witness:
  "main sample_env sample_cfg empty_disk = (Some (FileNotFoundError ''/n/perf''), empty_disk)
   \<and> fst (main sample_env sample_cfg (on_disk wide_file)) =
       Some (ParserError ''Error tokenizing data. C error: too many fields'')
   \<and> files (snd (main sample_env sample_cfg (on_disk wide_file))) ''/n/perf'' = Some []
   \<and> files (snd (main sample_env sample_cfg (on_disk wide_file))) ''/t/copy'' = Some wide_file"
proof -
  let ?e = "ParserError ''Error tokenizing data. C error: too many fields''"
  let ?w1 = "(on_disk wide_file)\<lparr>files := (files (on_disk wide_file))(''/t/copy'' \<mapsto> wide_file)\<rparr>"
  let ?w2 = "?w1\<lparr>files := (files ?w1)(''/n/perf'' \<mapsto> [])\<rparr>"
  have p: "original_file sample_cfg = ''/n/perf''" "copied_file sample_cfg = ''/t/copy''"
    by (simp_all add: sample_cfg_def)
  have a: "copyfile sample_env (original_file sample_cfg) (copied_file sample_cfg) empty_disk =
             Inl (FileNotFoundError ''/n/perf'')"
    by (simp add: copyfile_def sample_cfg_def empty_disk_def)
  have b: "open_w_close sample_env (original_file sample_cfg) ?w1 = Inr ?w2"
    by (simp add: open_w_close_def sample_env_def sample_cfg_def)
  have c: "read_csv sample_env (copied_file sample_cfg) ?w2 = Inl ?e"
    using rd_wide by (simp add: read_csv_def sample_env_def sample_cfg_def)
  have d: "files (on_disk wide_file) ''/n/perf'' = Some wide_file"
    by (simp add: on_disk_def)
  from truncation_follows_copy [of sample_env sample_cfg empty_disk
      "FileNotFoundError ''/n/perf''"] a
  have first: "main sample_env sample_cfg empty_disk =
                 (Some (FileNotFoundError ''/n/perf''), empty_disk)"
    by (simp only: simp_thms)
  from truncation_follows_copy [of sample_env sample_cfg "on_disk wide_file" _ ?w1 ?w2 ?e]
    copy_wide b c
  have second: "main sample_env sample_cfg (on_disk wide_file) = (Some ?e, ?w2)
      \<and> files ?w2 (original_file sample_cfg) = Some []
      \<and> files ?w2 (copied_file sample_cfg) = files (on_disk wide_file) (original_file sample_cfg)"
    by (simp only: simp_thms)
  from first second p d show ?thesis by simp
qed

text \<open>
  Claim C5 as stated fails: the file has the wrong shape (a line of eleven fields), the
  run ends with the error of the parser, and the original file, which was not empty,
  has been truncated.
\<close>

theorem wrong_shape_aborts_after_truncation:
  "files (on_disk wide_file) ''/n/perf'' = Some wide_file
   \<and> wide_file \<noteq> []
   \<and> fst (main sample_env sample_cfg (on_disk wide_file)) =
       Some (ParserError ''Error tokenizing data. C error: too many fields'')
   \<and> files (snd (main sample_env sample_cfg (on_disk wide_file))) ''/n/perf'' = Some []"
  using run_wide run_wide_files
  by (simp add: on_disk_def wide_file_def good_file_def sample_line_def tsv_line_def)

text \<open>
  Claim C6, as amended. In a run that reaches the end of \<open>main\<close>, the copy succeeded
  on an existing original, and right after the original was cleared (line 175) the
  original is empty and the copy holds, byte for byte, what the original held before
  the run. At the end of the run the copy is gone: \<open>os.remove\<close> has deleted it.
\<close>

theorem snapshot_between_copy_and_cleanup:
  assumes "fst (main env cfg w) = None"
  shows "\<exists>w1 w2. copyfile env (original_file cfg) (copied_file cfg) w = Inr w1
           \<and> open_w_close env (original_file cfg) w1 = Inr w2
           \<and> files w (original_file cfg) \<noteq> None
           \<and> files w2 (original_file cfg) = Some []
           \<and> files w2 (copied_file cfg) = files w (original_file cfg)
           \<and> files (snd (main env cfg w)) (copied_file cfg) = None"
proof -
  from main_completed [OF assms] obtain w1 w2 where
    c: "copyfile env (original_file cfg) (copied_file cfg) w = Inr w1" and
    o: "open_w_close env (original_file cfg) w1 = Inr w2" by blast
  from copyfile_files [OF c] open_w_close_files [OF o] have
    "files w (original_file cfg) \<noteq> None"
    "files w2 (original_file cfg) = Some []"
    "files w2 (copied_file cfg) = files w (original_file cfg)" by auto
  with c o completed_run_removed [OF assms] show ?thesis by blast
qed

theorem snapshot_between_copy_and_cleanup_witness:
  "fst (main sample_env sample_cfg (on_disk good_file)) = None
   \<and> (\<exists>w1 w2. copyfile sample_env ''/n/perf'' ''/t/copy'' (on_disk good_file) = Inr w1
           \<and> open_w_close sample_env ''/n/perf'' w1 = Inr w2
           \<and> files (on_disk good_file) ''/n/perf'' \<noteq> None
           \<and> files w2 ''/n/perf'' = Some []
           \<and> files w2 ''/t/copy'' = files (on_disk good_file) ''/n/perf''
           \<and> files (snd (main sample_env sample_cfg (on_disk good_file))) ''/t/copy'' = None)"
proof -
  have p: "original_file sample_cfg = ''/n/perf''" "copied_file sample_cfg = ''/t/copy''"
    by (simp_all add: sample_cfg_def)
  from snapshot_between_copy_and_cleanup [OF run_good] run_good show ?thesis
    unfolding p by (rule_tac conjI)
qed

text \<open>
  Claim C6 as stated fails: after a completed run on a file that was not empty, no
  file exists at the path of the copy, so the content is not there.
\<close>

theorem snapshot_gone_after_completed_run:
  "files (on_disk good_file) ''/n/perf'' = Some good_file
   \<and> good_file \<noteq> []
   \<and> fst (main sample_env sample_cfg (on_disk good_file)) = None
   \<and> files (snd (main sample_env sample_cfg (on_disk good_file))) ''/t/copy'' = None"
  using run_good run_good_files
  by (simp add: on_disk_def good_file_def sample_line_def tsv_line_def)

subsection \<open>The spreadsheet\<close>

text \<open>
  Claim C2 says that every run writes the table to the file named by \<open>excel_file\<close>.
  The script reads that option (line 161) and never uses it: no step of \<open>main\<close> writes
  a spreadsheet. Whenever \<open>excel_file\<close> is a path of its own (not the original, the copy
  or the chart, and not the name under which matplotlib saves the chart), the file at
  that path is after the run what it was before; in particular a run never creates it.
\<close>

theorem excel_file_untouched:
  assumes "excel_file cfg \<noteq> original_file cfg"
    and "excel_file cfg \<noteq> copied_file cfg"
    and "excel_file cfg \<noteq> graph_file cfg"
    and "\<forall>fig q img. plt_savefig env (graph_file cfg) fig = Inr (q, img)
            \<longrightarrow> q \<noteq> excel_file cfg"
  shows "files (snd (main env cfg w)) (excel_file cfg) = files w (excel_file cfg)"
  using assms by (rule main_elsewhere)

theorem excel_file_untouched_witness:
  "fst (main sample_env sample_cfg (on_disk good_file)) = None
   \<and> files (on_disk good_file) ''/t/d.xlsx'' = None
   \<and> files (snd (main sample_env sample_cfg (on_disk good_file))) ''/t/d.xlsx'' = None"
proof -
  have x: "excel_file sample_cfg = ''/t/d.xlsx''" by (simp add: sample_cfg_def)
  have a: "excel_file sample_cfg \<noteq> original_file sample_cfg"
          "excel_file sample_cfg \<noteq> copied_file sample_cfg"
          "excel_file sample_cfg \<noteq> graph_file sample_cfg"
    by (simp_all add: sample_cfg_def)
  have sv: "\<forall>fig q img. plt_savefig sample_env (graph_file sample_cfg) fig = Inr (q, img)
              \<longrightarrow> q \<noteq> excel_file sample_cfg"
    by (simp add: sample_env_def sample_cfg_def sample_savefig_def extension_def
                  basename_def Let_def)
  have e: "files (on_disk good_file) ''/t/d.xlsx'' = None" by (simp add: on_disk_def)
  from excel_file_untouched [OF a sv, of "on_disk good_file"] x e run_good
  show ?thesis by simp
qed

subsection \<open>The extractor\<close>

lemma re_search_skip:
  "(\<forall>i<length pre. match_here (drop i (pre @ s)) = None) \<Longrightarrow>
   re_search (pre @ s) = re_search s"
proof (induction pre)
  case Nil
  then show ?case by simp
next
  case (Cons c pre)
  from Cons.prems have "match_here (drop 0 ((c # pre) @ s)) = None" by blast
  then have h: "match_here (c # pre @ s) = None" by simp
  have "\<forall>i<length pre. match_here (drop i (pre @ s)) = None"
  proof (intro allI impI)
    fix i assume "i < length pre"
    then have "Suc i < length (c # pre)" by simp
    with Cons.prems have "match_here (drop (Suc i) ((c # pre) @ s)) = None" by blast
    then show "match_here (drop i (pre @ s)) = None" by simp
  qed
  from Cons.IH [OF this] h show ?case by simp
qed

lemma takeWhile_run:
  "list_all P xs \<Longrightarrow> ys = [] \<or> \<not> P (hd ys) \<Longrightarrow> takeWhile P (xs @ ys) = xs"
  by (induction xs) (auto simp: takeWhile_eq_Nil_iff neq_Nil_conv)

lemma dropWhile_run:
  "list_all P xs \<Longrightarrow> ys = [] \<or> \<not> P (hd ys) \<Longrightarrow> dropWhile P (xs @ ys) = ys"
  by (induction xs) (auto simp: dropWhile_eq_self_iff neq_Nil_conv)

lemma match_here_token:
  assumes "num \<noteq> []" and "list_all in_class num" and "post = [] \<or> \<not> in_class (hd post)"
  shows "match_here (pattern_literal @ num @ post) = Some num"
  using assms takeWhile_run [of in_class num post]
  by (simp add: match_here_def Let_def)

lemma re_search_token:
  assumes "num \<noteq> []" and "list_all in_class num" and "post = [] \<or> \<not> in_class (hd post)"
  shows "re_search (pattern_literal @ num @ post) = Some num"
proof -
  obtain c cs where "pattern_literal @ num @ post = c # cs"
    by (cases "pattern_literal @ num @ post") (simp_all add: pattern_literal_def)
  with match_here_token [OF assms] show ?thesis by simp
qed

lemma not_digit_dot: "\<not> is_digit (CHR ''.'')"
  by (simp add: is_digit_def)

lemma number_text_class:
  "is_number_text ip fp \<Longrightarrow> number_text ip fp \<noteq> [] \<and> list_all in_class (number_text ip fp)"
  by (auto simp: is_number_text_def number_text_def in_class_def list_all_iff
           split: option.splits)

lemma py_float_number:
  assumes "is_number_text ip fp"
  shows "py_float (number_text ip fp) = Inr (number_value ip fp)"
proof (cases fp)
  case None
  with assms have d: "ip \<noteq> []" "list_all is_digit ip" by (simp_all add: is_number_text_def)
  have t: "takeWhile is_digit ip = ip"
    using takeWhile_run [of is_digit ip "[]"] d(2) by simp
  have r: "dropWhile is_digit ip = []"
    using dropWhile_run [of is_digit ip "[]"] d(2) by simp
  from None d(1) show ?thesis
    by (simp add: py_float_def number_text_def number_value_def Let_def t r)
next
  case (Some f)
  with assms have d: "ip \<noteq> []" "list_all is_digit ip" "f \<noteq> []" "list_all is_digit f"
    by (simp_all add: is_number_text_def)
  have t: "takeWhile is_digit (ip @ CHR ''.'' # f) = ip"
    using takeWhile_run [of is_digit ip "CHR ''.'' # f"] d(2) not_digit_dot by simp
  have r: "dropWhile is_digit (ip @ CHR ''.'' # f) = CHR ''.'' # f"
    using dropWhile_run [of is_digit ip "CHR ''.'' # f"] d(2) not_digit_dot by simp
  from Some d(1,3,4) show ?thesis
    by (simp add: py_float_def number_text_def number_value_def Let_def t r)
qed

lemma astype_float_nth:
  "astype_float gs = Inr ts \<Longrightarrow> i < length gs \<Longrightarrow> gs ! i = Some g \<Longrightarrow>
   py_float g = Inr v \<Longrightarrow> ts ! i = Some v"
proof (induction gs arbitrary: ts i rule: astype_float.induct)
  case 1
  then show ?case by simp
next
  case (2 gs)
  then show ?case
    by (cases i) (auto simp: bindE_def split: sum.splits)
next
  case (3 g' gs)
  then show ?case
    by (cases i) (auto simp: bindE_def split: sum.splits)
qed

lemma extract_single:
  "extract_temperature [Str blob] =
     (case re_search blob of
        None \<Rightarrow> Inr [None]
      | Some g \<Rightarrow> (case py_float g of Inl e \<Rightarrow> Inl e | Inr v \<Rightarrow> Inr [Some v]))"
  by (simp add: extract_temperature_def str_accessor_def is_str_def str_extract_def bindE_def
           split: option.splits sum.splits)

lemma extract_nth:
  assumes "extract_temperature col = Inr temps" and "i < length col"
    and "col ! i = Str blob" and "re_search blob = Some g" and "py_float g = Inr v"
  shows "temps ! i = Some v"
proof -
  from assms(1) have a: "astype_float (map str_extract col) = Inr temps"
    by (auto simp: extract_temperature_def str_accessor_def bindE_def split: if_splits)
  from assms(2,3,4) have "map str_extract col ! i = Some g"
    by (simp add: str_extract_def)
  from astype_float_nth [OF a _ this assms(5)] assms(2) show ?thesis by simp
qed

lemma no_capital_A_no_match:
  assumes "CHR ''A'' \<notin> set pre"
  shows "\<forall>i<length pre. match_here (drop i (pre @ s)) = None"
proof (intro allI impI)
  fix i assume i: "i < length pre"
  then have "drop i (pre @ s) = pre ! i # drop (Suc i) (pre @ s)"
    by (simp add: Cons_nth_drop_Suc nth_append)
  moreover from i assms have "pre ! i \<noteq> CHR ''A''" by (metis nth_mem)
  ultimately show "match_here (drop i (pre @ s)) = None"
    by (simp add: match_here_def pattern_literal_def)
qed

text \<open>
  Claim C7, as amended. Let the detail text hold a token \<open>Ambient_temperatureC=\<close>
  followed by a number (digits, optionally a dot and digits). If no earlier position
  of the text matches the pattern, and the number is not directly followed by a
  further digit or dot, then the extractor yields exactly the value of that number: a
  table with this single line is converted without error, and in any table whose
  conversion succeeds the line has this temperature.
\<close>

theorem first_token_value:
  assumes "is_number_text ip fp"
    and "post = [] \<or> \<not> in_class (hd post)"
    and "\<forall>i<length pre.
           match_here (drop i (pre @ pattern_literal @ number_text ip fp @ post)) = None"
  shows "extract_temperature [Str (pre @ pattern_literal @ number_text ip fp @ post)] =
           Inr [Some (number_value ip fp)]
       \<and> (i < length col
            \<and> col ! i = Str (pre @ pattern_literal @ number_text ip fp @ post)
            \<and> extract_temperature col = Inr temps
          \<longrightarrow> temps ! i = Some (number_value ip fp))"
proof -
  let ?blob = "pre @ pattern_literal @ number_text ip fp @ post"
  from number_text_class [OF assms(1)] have
    n: "number_text ip fp \<noteq> []" "list_all in_class (number_text ip fp)" by simp_all
  have s: "re_search ?blob = Some (number_text ip fp)"
    using re_search_skip [OF assms(3)] re_search_token [OF n assms(2)] by simp
  have f: "py_float (number_text ip fp) = Inr (number_value ip fp)"
    using assms(1) by (rule py_float_number)
  have "extract_temperature [Str ?blob] = Inr [Some (number_value ip fp)]"
    by (simp add: extract_single s f)
  moreover have "temps ! i = Some (number_value ip fp)"
    if "i < length col" "col ! i = Str ?blob" "extract_temperature col = Inr temps"
    using extract_nth [OF that(3,1,2) s f] .
  ultimately show ?thesis by blast
qed

theorem first_token_value_witness:
  "is_number_text ''21'' (Some ''5'')
   \<and> number_text ''21'' (Some ''5'') = ''21.5''
   \<and> number_value ''21'' (Some ''5'') = 43 / 2
   \<and> extract_temperature [Str ''fan=3 Ambient_temperatureC=21.5;;''] = Inr [Some (43 / 2)]
   \<and> extract_temperature [Str ''fan=3'', Str ''fan=3 Ambient_temperatureC=21.5;;''] =
       Inr [None, Some (43 / 2)]"
proof -
  have a: "is_number_text ''21'' (Some ''5'')"
    by (simp add: is_number_text_def is_digit_def)
  have t: "number_text ''21'' (Some ''5'') = ''21.5''" by (simp add: number_text_def)
  have v: "number_value ''21'' (Some ''5'') = 43 / 2"
    by (simp add: number_value_def dec_def digit_val_def)
  have b: "'';;'' = [] \<or> \<not> in_class (hd '';;'')"
    by (simp add: in_class_def is_digit_def)
  have c: "\<forall>i<length ''fan=3 ''.
             match_here (drop i (''fan=3 '' @ pattern_literal @ number_text ''21'' (Some ''5'') @ '';;'')) = None"
    by (rule no_capital_A_no_match) simp
  have blob: "''fan=3 '' @ pattern_literal @ number_text ''21'' (Some ''5'') @ '';;'' =
               ''fan=3 Ambient_temperatureC=21.5;;''"
    by (simp add: pattern_literal_def number_text_def)
  have col: "extract_temperature [Str ''fan=3'', Str ''fan=3 Ambient_temperatureC=21.5;;''] =
       Inr [None, Some (43 / 2)]"
    by (simp add: run_defs)
  from first_token_value [OF a b c, of 1
      "[Str ''fan=3'', Str ''fan=3 Ambient_temperatureC=21.5;;'']" "[None, Some (43 / 2)]"]
  have "extract_temperature [Str ''fan=3 Ambient_temperatureC=21.5;;''] = Inr [Some (43 / 2)]"
    unfolding blob v by simp
  with a t v col show ?thesis by simp
qed

text \<open>
  Claim C7 as stated fails: the pattern is searched anywhere in the text, so it also
  matches inside a longer key. The text below holds the token
  \<open>Ambient_temperatureC=21.5\<close>, and the extractor yields 40, the value of another key.
\<close>

theorem other_key_value_extracted:
  "extract_temperature [Str ''Max_Ambient_temperatureC=40 Ambient_temperatureC=21.5''] =
     Inr [Some 40]
   \<and> ''Max_Ambient_temperatureC=40 Ambient_temperatureC=21.5'' =
      ''Max_Ambient_temperatureC=40 '' @ pattern_literal @ number_text ''21'' (Some ''5'') @ []
   \<and> is_number_text ''21'' (Some ''5'')
   \<and> number_value ''21'' (Some ''5'') \<noteq> 40"
  by (simp add: run_defs pattern_literal_def number_text_def is_number_text_def
                number_value_def)

text \<open>
  Claim C1 says that a token whose value is malformed gives a missing temperature and
  never an error. The group \<open>[\d.]+\<close> captures any run of digits and dots; when the run
  is not a number, as in \<open>1.2.3\<close>, the conversion to float raises ValueError and the
  run ends with it. A value with no digit or dot at all (the example of the
  specification) and a text without the token do give NaN, as long as some line of
  the file has a detail text: on a column without any string the accessor \<open>.str\<close>
  raises AttributeError.
\<close>

theorem malformed_token_raises:
  "extract_temperature [Str ''Ambient_temperatureC=1.2.3''] = Inl (ValueError ''1.2.3'')
   \<and> fst (main sample_env sample_cfg (on_disk malformed_file)) = Some (ValueError ''1.2.3'')
   \<and> extract_temperature [Str ''Ambient_temperatureC='', Str ''fan=3''] = Inr [None, None]
   \<and> extract_temperature [NaN, NaN] =
       Inl (AttributeError ''Can only use .str accessor with string values!'')"
  by (simp add: run_defs malformed_file_def)

end
